theory Spec2Isabelle
  imports Main
begin

section \<open>Data model\<close>

text \<open>
  The editor keeps its document in one store (\<open>lib/store\<close>): the list of nodes, the
  list of edges, the active tool and a linear undo history.  JavaScript numbers that
  hold pixel coordinates and sizes are modelled as \<open>int\<close>; \<open>historyIndex\<close> is an
  \<open>int\<close> because the store starts it at \<open>-1\<close>.
\<close>

datatype tool = Select | Eraser | Rectangle | Circle | Label

datatype border_style = Solid | Dotted

text \<open>
  \<open>CustomNodeData\<close>.  The optional fields are \<open>option\<close>s (\<open>None\<close> is an absent
  field).  \<open>nodeType\<close> is typed as a \<open>tool\<close>: the canvas stores the current tool
  in it.
\<close>

record node_data =
  label :: string
  nodeType :: tool
  width :: "int option"
  height :: "int option"
  backgroundColor :: "string option"
  textColor :: "string option"
  borderStyle :: "border_style option"

record node =
  node_id :: string
  node_type :: string
  position :: "int \<times> int"
  data :: node_data

record edge =
  edge_id :: string
  source :: string
  target :: string
  edge_type :: string

text \<open>One entry of the history: \<open>{ nodes: Node[]; edges: Edge[] }\<close>.\<close>

record snapshot =
  snap_nodes :: "node list"
  snap_edges :: "edge list"

record app_state =
  currentTool :: tool
  nodes :: "node list"
  edges :: "edge list"
  history :: "snapshot list"
  historyIndex :: int
  editingNodeId :: "string option"
  selectedNodes :: "node list"

text \<open>The store as \<open>create\<close> initialises it.\<close>

definition initial_state :: app_state where
  "initial_state =
     \<lparr>currentTool = Select, nodes = [], edges = [], history = [], historyIndex = - 1,
      editingNodeId = None, selectedNodes = []\<rparr>"

section \<open>JavaScript array primitives\<close>

text \<open>
  \<open>xs.slice(0, e)\<close>: a negative end counts from the end of the array, and the end
  is clamped to the array.
\<close>

definition slice0 :: "'a list \<Rightarrow> int \<Rightarrow> 'a list" where
  "slice0 xs e =
     (let len = int (length xs);
          final = (if e < 0 then max (len + e) 0 else min e len)
      in take (nat final) xs)"

text \<open>
  \<open>xs[i]\<close>: reading outside the array gives \<open>undefined\<close>, here \<open>None\<close>.  The
  store reads a field of the result at once, which throws on \<open>undefined\<close>.
\<close>

definition js_index :: "'a list \<Rightarrow> int \<Rightarrow> 'a option" where
  "js_index xs i = (if 0 \<le> i \<and> i < int (length xs) then Some (xs ! nat i) else None)"

datatype error = TypeError

section \<open>The store (\<open>lib/store\<close>)\<close>

definition setCurrentTool :: "tool \<Rightarrow> app_state \<Rightarrow> app_state" where
  "setCurrentTool t s = s\<lparr>currentTool := t\<rparr>"

definition setNodes :: "node list \<Rightarrow> app_state \<Rightarrow> app_state" where
  "setNodes ns s = s\<lparr>nodes := ns\<rparr>"

definition setEdges :: "edge list \<Rightarrow> app_state \<Rightarrow> app_state" where
  "setEdges es s = s\<lparr>edges := es\<rparr>"

definition setEditingNodeId :: "string option \<Rightarrow> app_state \<Rightarrow> app_state" where
  "setEditingNodeId i s = s\<lparr>editingNodeId := i\<rparr>"

definition setSelectedNodes :: "node list \<Rightarrow> app_state \<Rightarrow> app_state" where
  "setSelectedNodes ns s = s\<lparr>selectedNodes := ns\<rparr>"

definition saveToHistory :: "app_state \<Rightarrow> app_state" where
  "saveToHistory s =
     (let newHistory = slice0 (history s) (historyIndex s + 1)
                         @ [\<lparr>snap_nodes = nodes s, snap_edges = edges s\<rparr>]
      in s\<lparr>history := newHistory, historyIndex := int (length newHistory) - 1\<rparr>)"

definition undo :: "app_state \<Rightarrow> error + app_state" where
  "undo s =
     (if historyIndex s > 0 then
        (case js_index (history s) (historyIndex s - 1) of
           None \<Rightarrow> Inl TypeError
         | Some prevState \<Rightarrow>
             Inr (s\<lparr>nodes := snap_nodes prevState, edges := snap_edges prevState,
                    historyIndex := historyIndex s - 1\<rparr>))
      else Inr s)"

definition redo :: "app_state \<Rightarrow> error + app_state" where
  "redo s =
     (if historyIndex s < int (length (history s)) - 1 then
        (case js_index (history s) (historyIndex s + 1) of
           None \<Rightarrow> Inl TypeError
         | Some nextState \<Rightarrow>
             Inr (s\<lparr>nodes := snap_nodes nextState, edges := snap_edges nextState,
                    historyIndex := historyIndex s + 1\<rparr>))
      else Inr s)"

definition deleteNode :: "string \<Rightarrow> app_state \<Rightarrow> app_state" where
  "deleteNode nodeId s =
     (let updatedNodes = filter (\<lambda>n. node_id n \<noteq> nodeId) (nodes s);
          updatedEdges = filter (\<lambda>e. source e \<noteq> nodeId \<and> target e \<noteq> nodeId) (edges s)
      in saveToHistory (s\<lparr>nodes := updatedNodes, edges := updatedEdges\<rparr>))"

text \<open>
  A history driver: the three history operations as values, run one after the other.
  A throwing call ends the run with its error.
\<close>

datatype hist_op = SaveToHistory | Undo | Redo

fun step :: "hist_op \<Rightarrow> app_state \<Rightarrow> error + app_state" where
  "step SaveToHistory s = Inr (saveToHistory s)"
| "step Undo s = undo s"
| "step Redo s = redo s"

fun run :: "hist_op list \<Rightarrow> app_state \<Rightarrow> error + app_state" where
  "run [] s = Inr s"
| "run (x # xs) s = (case step x s of Inl e \<Rightarrow> Inl e | Inr s' \<Rightarrow> run xs s')"

text \<open>\<open>undo()\<close> immediately followed by \<open>redo()\<close>.\<close>

definition undo_redo :: "app_state \<Rightarrow> error + app_state" where
  "undo_redo s = (case undo s of Inl e \<Rightarrow> Inl e | Inr s' \<Rightarrow> redo s')"

text \<open>
  The cursor invariant of the history log: the empty history with cursor \<open>-1\<close>, or a
  cursor that is an index of the history.
\<close>

definition hist_inv :: "app_state \<Rightarrow> bool" where
  "hist_inv s =
     ((history s = [] \<and> historyIndex s = - 1)
      \<or> (0 \<le> historyIndex s \<and> historyIndex s < int (length (history s))))"

text \<open>The snapshot of the live document, as \<open>saveToHistory\<close> builds it.\<close>

definition current_snapshot :: "app_state \<Rightarrow> snapshot" where
  "current_snapshot s = \<lparr>snap_nodes = nodes s, snap_edges = edges s\<rparr>"

section \<open>Node components\<close>

text \<open>
  The handlers of the node components read \<open>nodes\<close> from the store hook and write
  through \<open>setNodes\<close> and \<open>saveToHistory\<close>.  A handler is modelled on the store the
  component was last rendered with; component-local state (open popups, the context
  menu position) is not part of the store and is left out.
\<close>

text \<open>The delete button of the node popover.\<close>

definition handleDelete :: "string \<Rightarrow> app_state \<Rightarrow> app_state" where
  "handleDelete id' s =
     (let updatedNodes = filter (\<lambda>n. node_id n \<noteq> id') (nodes s)
      in saveToHistory (setNodes updatedNodes s))"

text \<open>The delete button of \<open>NodeContextMenu\<close>.\<close>

definition NodeContextMenu_deleteNode :: "string \<Rightarrow> app_state \<Rightarrow> app_state" where
  "NodeContextMenu_deleteNode nodeId s =
     (let updatedNodes = filter (\<lambda>n. node_id n \<noteq> nodeId) (nodes s)
      in saveToHistory (setNodes updatedNodes s))"

text \<open>
  \<open>Partial<CustomNodeData>\<close>: every field may be absent.  \<open>{...data, ...updates}\<close>
  takes a field from \<open>updates\<close> where it is present.
\<close>

record data_updates =
  upd_label :: "string option"
  upd_nodeType :: "tool option"
  upd_width :: "int option"
  upd_height :: "int option"
  upd_backgroundColor :: "string option"
  upd_textColor :: "string option"
  upd_borderStyle :: "border_style option"

definition spread :: "'a option \<Rightarrow> 'a option \<Rightarrow> 'a option" where
  "spread old new = (case new of None \<Rightarrow> old | Some v \<Rightarrow> Some v)"

definition merge_data :: "node_data \<Rightarrow> data_updates \<Rightarrow> node_data" where
  "merge_data d u =
     \<lparr>label = (case upd_label u of None \<Rightarrow> label d | Some l \<Rightarrow> l),
      nodeType = (case upd_nodeType u of None \<Rightarrow> nodeType d | Some t \<Rightarrow> t),
      width = spread (width d) (upd_width u),
      height = spread (height d) (upd_height u),
      backgroundColor = spread (backgroundColor d) (upd_backgroundColor u),
      textColor = spread (textColor d) (upd_textColor u),
      borderStyle = spread (borderStyle d) (upd_borderStyle u)\<rparr>"

text \<open>The update \<open>{ width: w, height: h }\<close>.\<close>

definition size_updates :: "int \<Rightarrow> int \<Rightarrow> data_updates" where
  "size_updates w h =
     \<lparr>upd_label = None, upd_nodeType = None, upd_width = Some w, upd_height = Some h,
      upd_backgroundColor = None, upd_textColor = None, upd_borderStyle = None\<rparr>"

text \<open>
  \<open>updateNodeData\<close>.  Its first argument is the \<open>nodes\<close> array the callback closed
  over when it was created.
\<close>

definition updateNodeData ::
  "node list \<Rightarrow> string \<Rightarrow> data_updates \<Rightarrow> app_state \<Rightarrow> app_state" where
  "updateNodeData closed_nodes id' updates s =
     (let updatedNodes =
            map (\<lambda>n. if node_id n = id' then n\<lparr>data := merge_data (data n) updates\<rparr> else n)
              closed_nodes
      in saveToHistory (setNodes updatedNodes s))"

record mouse_event =
  clientX :: int
  clientY :: int

text \<open>\<open>v || d\<close> on an optional number: an absent field and \<open>0\<close> are both falsy.\<close>

definition or_default :: "int option \<Rightarrow> int \<Rightarrow> int" where
  "or_default v d = (case v of None \<Rightarrow> d | Some x \<Rightarrow> if x = 0 then d else x)"

text \<open>\<open>s.includes(sub)\<close>.\<close>

fun str_includes :: "string \<Rightarrow> string \<Rightarrow> bool" where
  "str_includes [] sub = (sub = [])"
| "str_includes (c # cs) sub =
     (take (length sub) (c # cs) = sub \<or> str_includes cs sub)"

subsection \<open>Resize in the context-menu variant of the node\<close>

text \<open>The component state that \<open>handleResizeStart\<close> sets; sizes are (width, height).\<close>

record resize_session =
  isResizing :: bool
  resizeHandle :: "string option"
  startPos :: "int \<times> int"
  startSize :: "int \<times> int"

definition handleResizeStart :: "node_data \<Rightarrow> mouse_event \<Rightarrow> string \<Rightarrow> resize_session" where
  "handleResizeStart d e handle =
     \<lparr>isResizing = True, resizeHandle = Some handle,
      startPos = (clientX e, clientY e),
      startSize = (or_default (width d) 120, or_default (height d) 80)\<rparr>"

text \<open>
  The size that \<open>handleResizeMove\<close> passes to \<open>updateNodeData\<close>; \<open>None\<close> when the
  handler returns before writing (not resizing, or no handle: \<open>null\<close> and the empty
  string are both falsy).
\<close>

definition resizeMove_size :: "resize_session \<Rightarrow> node_data \<Rightarrow> mouse_event \<Rightarrow> (int \<times> int) option" where
  "resizeMove_size sess d e =
     (case resizeHandle sess of
        None \<Rightarrow> None
      | Some h \<Rightarrow>
          if \<not> isResizing sess \<or> h = [] then None
          else
            let deltaX = clientX e - fst (startPos sess);
                deltaY = clientY e - snd (startPos sess);
                newWidth = fst (startSize sess);
                newHeight = snd (startSize sess);
                newWidth = (if str_includes h ''right''
                            then max 50 (fst (startSize sess) + deltaX) else newWidth);
                newWidth = (if str_includes h ''left''
                            then max 50 (fst (startSize sess) - deltaX) else newWidth);
                newHeight = (if str_includes h ''bottom''
                             then max 30 (snd (startSize sess) + deltaY) else newHeight);
                newHeight = (if str_includes h ''top''
                             then max 30 (snd (startSize sess) - deltaY) else newHeight)
            in if nodeType d = Circle
               then (let size = min newWidth newHeight in Some (size, size))
               else Some (newWidth, newHeight))"

definition handleResizeMove ::
  "resize_session \<Rightarrow> string \<Rightarrow> node_data \<Rightarrow> mouse_event \<Rightarrow> app_state \<Rightarrow> app_state" where
  "handleResizeMove sess id' d e s =
     (case resizeMove_size sess d e of
        None \<Rightarrow> s
      | Some (newWidth, newHeight) \<Rightarrow>
          updateNodeData (nodes s) id' (size_updates newWidth newHeight) s)"

subsection \<open>Resize in the popover variant of the node\<close>

text \<open>
  There \<open>handleResizeStart\<close> registers a \<open>handleMouseMove\<close> closure for the whole drag.
  The closure keeps what it captured at pointer-down: the handle, the start pointer
  and size, the component's \<open>data\<close> and the \<open>nodes\<close> that \<open>updateNodeData\<close> closed
  over.
\<close>

record resize_closure =
  rc_id :: string
  rc_handle :: string
  rc_startX :: int
  rc_startY :: int
  rc_startWidth :: int
  rc_startHeight :: int
  rc_data :: node_data
  rc_nodes :: "node list"

definition handleResizeStart_popup ::
  "string \<Rightarrow> node_data \<Rightarrow> node list \<Rightarrow> mouse_event \<Rightarrow> string \<Rightarrow> resize_closure" where
  "handleResizeStart_popup id' d closed_nodes e handle =
     \<lparr>rc_id = id', rc_handle = handle, rc_startX = clientX e, rc_startY = clientY e,
      rc_startWidth = or_default (width d) 120, rc_startHeight = or_default (height d) 80,
      rc_data = d, rc_nodes = closed_nodes\<rparr>"

definition mouseMove_size :: "resize_closure \<Rightarrow> mouse_event \<Rightarrow> int \<times> int" where
  "mouseMove_size c e =
     (let deltaX = clientX e - rc_startX c;
          deltaY = clientY e - rc_startY c;
          startWidth = rc_startWidth c;
          startHeight = rc_startHeight c;
          (newWidth, newHeight) =
            (if rc_handle c = ''bottom-right''
               then (max 60 (startWidth + deltaX), max 40 (startHeight + deltaY))
             else if rc_handle c = ''bottom-left''
               then (max 60 (startWidth - deltaX), max 40 (startHeight + deltaY))
             else if rc_handle c = ''top-right''
               then (max 60 (startWidth + deltaX), max 40 (startHeight - deltaY))
             else if rc_handle c = ''top-left''
               then (max 60 (startWidth - deltaX), max 40 (startHeight - deltaY))
             else (startWidth, startHeight))
      in if nodeType (rc_data c) = Circle
         then (let size = min newWidth newHeight in (size, size))
         else (newWidth, newHeight))"

definition handleMouseMove :: "resize_closure \<Rightarrow> mouse_event \<Rightarrow> app_state \<Rightarrow> app_state" where
  "handleMouseMove c e s =
     (case mouseMove_size c e of
        (newWidth, newHeight) \<Rightarrow>
          updateNodeData (rc_nodes c) (rc_id c) (size_updates newWidth newHeight) s)"

subsection \<open>A resize drag as a sequence of events\<close>

text \<open>
  The rendering layer mounts one component per node and hands it the node's \<open>data\<close>;
  a node that is not in the store has no component and receives no event.
\<close>

definition find_data :: "string \<Rightarrow> app_state \<Rightarrow> node_data option" where
  "find_data id' s = map_option data (find (\<lambda>n. node_id n = id') (nodes s))"

definition corner_handles :: "string list" where
  "corner_handles = [''top-left'', ''top-right'', ''bottom-left'', ''bottom-right'']"

text \<open>
  Context-menu variant: the move listener is attached again after every render, so
  each move sees the component's current \<open>data\<close> and \<open>nodes\<close>.
\<close>

fun resize_moves ::
  "resize_session \<Rightarrow> string \<Rightarrow> mouse_event list \<Rightarrow> app_state \<Rightarrow> app_state" where
  "resize_moves sess id' [] s = s"
| "resize_moves sess id' (e # es) s =
     (case find_data id' s of
        None \<Rightarrow> s
      | Some d \<Rightarrow> resize_moves sess id' es (handleResizeMove sess id' d e s))"

definition resize_drag ::
  "string \<Rightarrow> string \<Rightarrow> mouse_event \<Rightarrow> mouse_event list \<Rightarrow> app_state \<Rightarrow> app_state" where
  "resize_drag id' handle e0 moves s =
     (case find_data id' s of
        None \<Rightarrow> s
      | Some d \<Rightarrow> resize_moves (handleResizeStart d e0 handle) id' moves s)"

text \<open>Popover variant: every move runs the closure made at pointer-down.\<close>

definition resize_drag_popup ::
  "string \<Rightarrow> string \<Rightarrow> mouse_event \<Rightarrow> mouse_event list \<Rightarrow> app_state \<Rightarrow> app_state" where
  "resize_drag_popup id' handle e0 moves s =
     (case find_data id' s of
        None \<Rightarrow> s
      | Some d \<Rightarrow>
          foldl (\<lambda>s' e. handleMouseMove (handleResizeStart_popup id' d (nodes s) e0 handle) e s')
            s moves)"

text \<open>Every node of the store with the given id has equal, present width and height.\<close>

definition square_at :: "string \<Rightarrow> app_state \<Rightarrow> bool" where
  "square_at id' s =
     list_all (\<lambda>n. node_id n \<noteq> id' \<or> (width (data n) \<noteq> None \<and> width (data n) = height (data n)))
       (nodes s)"

text \<open>A node with both sizes set to \<open>sz\<close> when its id is the given one, itself otherwise.\<close>

definition resized :: "string \<Rightarrow> int \<Rightarrow> node \<Rightarrow> node" where
  "resized id' sz n =
     (if node_id n = id' then n\<lparr>data := (data n)\<lparr>width := Some sz, height := Some sz\<rparr>\<rparr> else n)"

text \<open>
  The size a circle is to get from a pointer move, written out apart from the
  handlers.  Each axis is the start size plus the pointer's travel since pointer-down,
  counted positive towards the dragged corner (to the right for a right corner, to the
  left for a left one; downwards for a bottom corner, upwards for a top one), and not
  below the floor \<open>(minimal width, minimal height)\<close> of the variant.  The circle
  gets the smaller of the two axes.
\<close>

definition circle_size ::
  "int \<times> int \<Rightarrow> string \<Rightarrow> int \<times> int \<Rightarrow> int \<times> int \<Rightarrow> int \<times> int \<Rightarrow> int" where
  "circle_size floor_size handle start_size start_pointer pointer =
     (let dx = fst pointer - fst start_pointer;
          dy = snd pointer - snd start_pointer;
          sx = (if handle = ''top-right'' \<or> handle = ''bottom-right'' then 1 else - 1);
          sy = (if handle = ''bottom-left'' \<or> handle = ''bottom-right'' then 1 else - 1)
      in min (max (fst floor_size) (fst start_size + sx * dx))
             (max (snd floor_size) (snd start_size + sy * dy)))"

section \<open>The canvas (\<open>components/canvas\<close>)\<close>

text \<open>The part of \<open>getBoundingClientRect()\<close> that the canvas reads.\<close>

record dom_rect =
  rect_left :: int
  rect_top :: int

text \<open>Decimal digits of a number, for the template string \<open>node-${Date.now()}\<close>.\<close>

fun string_of_nat :: "nat \<Rightarrow> string" where
  "string_of_nat n =
     (if n < 10 then [''0123456789'' ! n]
      else string_of_nat (n div 10) @ [''0123456789'' ! (n mod 10)])"

declare string_of_nat.simps [simp del]

text \<open>
  \<open>onPaneClick\<close>.  The projector of the rendering layer, the bounds of the wrapper
  element (\<open>None\<close> when the ref is not mounted) and the value of \<open>Date.now()\<close> are
  parameters.
\<close>

definition onPaneClick ::
  "(int \<times> int \<Rightarrow> int \<times> int) \<Rightarrow> dom_rect option \<Rightarrow> nat \<Rightarrow> mouse_event
     \<Rightarrow> app_state \<Rightarrow> app_state" where
  "onPaneClick project bounds now event s =
     (if currentTool s = Select then s
      else case bounds of
        None \<Rightarrow> s
      | Some b \<Rightarrow>
          let pos = project (clientX event - rect_left b, clientY event - rect_top b);
              newNode =
                \<lparr>node_id = ''node-'' @ string_of_nat now,
                 node_type = ''custom'',
                 position = pos,
                 data =
                   \<lparr>label = [],
                    nodeType = (if currentTool s = Label then Label else currentTool s),
                    width = Some (if currentTool s = Label then 100 else 120),
                    height = Some (if currentTool s = Label then 40 else 80),
                    backgroundColor = None, textColor = None, borderStyle = None\<rparr>\<rparr>
          in setCurrentTool Select (saveToHistory (setNodes (nodes s @ [newNode]) s)))"

text \<open>\<open>onNodeClick\<close>: the eraser deletes the clicked node and the edges at it.\<close>

definition onNodeClick :: "node \<Rightarrow> app_state \<Rightarrow> app_state" where
  "onNodeClick n s =
     (if currentTool s = Eraser then
        saveToHistory
          (setEdges (filter (\<lambda>e. source e \<noteq> node_id n \<and> target e \<noteq> node_id n) (edges s))
            (setNodes (filter (\<lambda>m. node_id m \<noteq> node_id n) (nodes s)) s))
      else s)"

section \<open>Snapshots in memory\<close>

text \<open>
  Whether a snapshot shares memory with the live document depends on references, so
  \<open>saveToHistory\<close> is modelled a second time over an explicit heap.  Arrays and the
  node and edge objects live at addresses; an array holds the addresses of its
  elements.  The store holds the addresses of the live \<open>nodes\<close> and \<open>edges\<close> arrays,
  and a history entry holds the addresses of its two arrays.  The history array and the
  entry objects are new at every call and are kept as values.
\<close>

type_synonym addr = nat

datatype obj = NodeObj node | EdgeObj edge

record heap =
  arrays :: "addr \<Rightarrow> addr list option"
  objects :: "addr \<Rightarrow> obj option"
  next_addr :: addr

record store_h =
  heap_of :: heap
  nodes_ref :: addr
  edges_ref :: addr
  history_h :: "(addr \<times> addr) list"
  historyIndex_h :: int

text \<open>\<open>[...xs]\<close>: a new array with the same elements.\<close>

definition copy_array :: "heap \<Rightarrow> addr \<Rightarrow> addr \<times> heap" where
  "copy_array h a =
     (next_addr h, h\<lparr>arrays := (arrays h)(next_addr h := arrays h a),
                      next_addr := Suc (next_addr h)\<rparr>)"

definition saveToHistory_h :: "store_h \<Rightarrow> store_h" where
  "saveToHistory_h s =
     (case copy_array (heap_of s) (nodes_ref s) of
        (ns, h1) \<Rightarrow>
          (case copy_array h1 (edges_ref s) of
             (es, h2) \<Rightarrow>
               let newHistory = slice0 (history_h s) (historyIndex_h s + 1) @ [(ns, es)]
               in s\<lparr>heap_of := h2, history_h := newHistory,
                     historyIndex_h := int (length newHistory) - 1\<rparr>))"

text \<open>
  In-place mutation: of an array (\<open>push\<close>, \<open>splice\<close>, an assignment to an index: the
  array at the address has new contents) and of an object (an assignment to a field).
\<close>

definition array_write :: "heap \<Rightarrow> addr \<Rightarrow> addr list \<Rightarrow> heap" where
  "array_write h a xs = h\<lparr>arrays := (arrays h)(a \<mapsto> xs)\<rparr>"

definition object_write :: "heap \<Rightarrow> addr \<Rightarrow> obj \<Rightarrow> heap" where
  "object_write h a v = h\<lparr>objects := (objects h)(a \<mapsto> v)\<rparr>"

text \<open>What a history entry shows when it is read: its arrays, element by element.\<close>

definition read_array :: "heap \<Rightarrow> addr \<Rightarrow> obj option list option" where
  "read_array h a = map_option (map (objects h)) (arrays h a)"

definition read_snapshot ::
  "heap \<Rightarrow> addr \<times> addr \<Rightarrow> obj option list option \<times> obj option list option" where
  "read_snapshot h entry = (read_array h (fst entry), read_array h (snd entry))"

text \<open>The live arrays have been allocated.\<close>

definition allocated :: "store_h \<Rightarrow> bool" where
  "allocated s =
     (nodes_ref s < next_addr (heap_of s) \<and> edges_ref s < next_addr (heap_of s))"

text \<open>
  \<open>undo\<close> and \<open>redo\<close> over the heap: \<open>nodes: prevState.nodes\<close> makes the entry's
  own array the live array.
\<close>

definition undo_h :: "store_h \<Rightarrow> error + store_h" where
  "undo_h s =
     (if historyIndex_h s > 0 then
        (case js_index (history_h s) (historyIndex_h s - 1) of
           None \<Rightarrow> Inl TypeError
         | Some prevState \<Rightarrow>
             Inr (s\<lparr>nodes_ref := fst prevState, edges_ref := snd prevState,
                    historyIndex_h := historyIndex_h s - 1\<rparr>))
      else Inr s)"

definition redo_h :: "store_h \<Rightarrow> error + store_h" where
  "redo_h s =
     (if historyIndex_h s < int (length (history_h s)) - 1 then
        (case js_index (history_h s) (historyIndex_h s + 1) of
           None \<Rightarrow> Inl TypeError
         | Some nextState \<Rightarrow>
             Inr (s\<lparr>nodes_ref := fst nextState, edges_ref := snd nextState,
                    historyIndex_h := historyIndex_h s + 1\<rparr>))
      else Inr s)"

text \<open>
  What can happen to the heap store after a snapshot was taken: the three history
  operations, and in-place mutation of any array and of any object.
\<close>

datatype heap_op =
  SaveToHistoryH | UndoH | RedoH | ArrayWrite addr "addr list" | ObjectWrite addr obj

fun step_h :: "heap_op \<Rightarrow> store_h \<Rightarrow> error + store_h" where
  "step_h SaveToHistoryH s = Inr (saveToHistory_h s)"
| "step_h UndoH s = undo_h s"
| "step_h RedoH s = redo_h s"
| "step_h (ArrayWrite a xs) s = Inr (s\<lparr>heap_of := array_write (heap_of s) a xs\<rparr>)"
| "step_h (ObjectWrite a v) s = Inr (s\<lparr>heap_of := object_write (heap_of s) a v\<rparr>)"

fun run_h :: "heap_op list \<Rightarrow> store_h \<Rightarrow> error + store_h" where
  "run_h [] s = Inr s"
| "run_h (x # xs) s = (case step_h x s of Inl e \<Rightarrow> Inl e | Inr s' \<Rightarrow> run_h xs s')"

text \<open>The operation mutates no array in place but, possibly, the listed ones.\<close>

fun array_write_within :: "addr list \<Rightarrow> heap_op \<Rightarrow> bool" where
  "array_write_within as (ArrayWrite a xs) = (a \<in> set as)"
| "array_write_within as SaveToHistoryH = True"
| "array_write_within as UndoH = True"
| "array_write_within as RedoH = True"
| "array_write_within as (ObjectWrite a v) = True"

section \<open>Example documents\<close>

definition ex_node :: "string \<Rightarrow> tool \<Rightarrow> node" where
  "ex_node i t =
     \<lparr>node_id = i, node_type = ''custom'', position = (0, 0),
      data = \<lparr>label = [], nodeType = t, width = Some 120, height = Some 80,
              backgroundColor = None, textColor = None, borderStyle = None\<rparr>\<rparr>"

definition ex_edge :: "string \<Rightarrow> string \<Rightarrow> string \<Rightarrow> edge" where
  "ex_edge i a b = \<lparr>edge_id = i, source = a, target = b, edge_type = ''straight''\<rparr>"

text \<open>Two nodes joined by one edge, committed once.\<close>

definition ex_doc :: app_state where
  "ex_doc =
     \<lparr>currentTool = Select,
      nodes = [ex_node ''n1'' Rectangle, ex_node ''n2'' Rectangle],
      edges = [ex_edge ''e1'' ''n1'' ''n2''],
      history =
        [\<lparr>snap_nodes = [ex_node ''n1'' Rectangle, ex_node ''n2'' Rectangle],
          snap_edges = [ex_edge ''e1'' ''n1'' ''n2'']\<rparr>],
      historyIndex = 0, editingNodeId = None, selectedNodes = []\<rparr>"

text \<open>
  Two commits (one node, then two nodes) followed by one undo: the cursor is at the
  first entry and the live document is that entry.
\<close>

definition ex_undone :: app_state where
  "ex_undone =
     \<lparr>currentTool = Select,
      nodes = [ex_node ''n1'' Rectangle],
      edges = [],
      history =
        [\<lparr>snap_nodes = [ex_node ''n1'' Rectangle], snap_edges = []\<rparr>,
         \<lparr>snap_nodes = [ex_node ''n1'' Rectangle, ex_node ''n2'' Rectangle], snap_edges = []\<rparr>],
      historyIndex = 0, editingNodeId = None, selectedNodes = []\<rparr>"

text \<open>The same two commits with the cursor at the second entry.\<close>

definition ex_two :: app_state where
  "ex_two = ex_undone
     \<lparr>nodes := [ex_node ''n1'' Rectangle, ex_node ''n2'' Rectangle], historyIndex := 1\<rparr>"

text \<open>Three commits (no node, one node, two nodes) with the cursor at the last.\<close>

definition ex_three :: app_state where
  "ex_three =
     \<lparr>currentTool = Select,
      nodes = [ex_node ''n1'' Rectangle, ex_node ''n2'' Rectangle],
      edges = [],
      history =
        [\<lparr>snap_nodes = [], snap_edges = []\<rparr>,
         \<lparr>snap_nodes = [ex_node ''n1'' Rectangle], snap_edges = []\<rparr>,
         \<lparr>snap_nodes = [ex_node ''n1'' Rectangle, ex_node ''n2'' Rectangle], snap_edges = []\<rparr>],
      historyIndex = 2, editingNodeId = None, selectedNodes = []\<rparr>"

text \<open>A circle, as the canvas creates it (120 by 80).\<close>

definition ex_circle_doc :: app_state where
  "ex_circle_doc = initial_state\<lparr>nodes := [ex_node ''c1'' Circle]\<rparr>"

text \<open>
  A heap with one node object (address 0), the live \<open>nodes\<close> array holding it
  (address 1) and the empty live \<open>edges\<close> array (address 2).
\<close>

definition ex_store_h :: store_h where
  "ex_store_h =
     \<lparr>heap_of =
        \<lparr>arrays = [1 \<mapsto> [0], 2 \<mapsto> []],
         objects = [0 \<mapsto> NodeObj (ex_node ''n1'' Rectangle)],
         next_addr = 3\<rparr>,
      nodes_ref = 1, edges_ref = 2, history_h = [], historyIndex_h = - 1\<rparr>"

text \<open>The heap store after two commits, and after the \<open>undo\<close> that follows them.\<close>

definition ex_store_h2 :: store_h where
  "ex_store_h2 = saveToHistory_h (saveToHistory_h ex_store_h)"

definition ex_store_h2_undone :: store_h where
  "ex_store_h2_undone = ex_store_h2\<lparr>nodes_ref := 3, edges_ref := 4, historyIndex_h := 0\<rparr>"

section \<open>The history log\<close>

lemma slice0_nonneg: "0 \<le> e \<Longrightarrow> slice0 xs e = take (nat e) xs"
  by (auto simp: slice0_def Let_def min_def)

lemma saveToHistory_nodes [simp]: "nodes (saveToHistory s) = nodes s"
  by (simp add: saveToHistory_def Let_def)

lemma saveToHistory_edges [simp]: "edges (saveToHistory s) = edges s"
  by (simp add: saveToHistory_def Let_def)

lemma saveToHistory_currentTool [simp]: "currentTool (saveToHistory s) = currentTool s"
  by (simp add: saveToHistory_def Let_def)

lemma saveToHistory_index:
  "historyIndex (saveToHistory s) = int (length (history (saveToHistory s))) - 1"
  by (simp add: saveToHistory_def Let_def)

lemma saveToHistory_history:
  "- 1 \<le> historyIndex s \<Longrightarrow>
   history (saveToHistory s) = take (nat (historyIndex s + 1)) (history s) @ [current_snapshot s]"
  by (simp add: saveToHistory_def Let_def slice0_nonneg current_snapshot_def)

lemma saveToHistory_inv: "hist_inv (saveToHistory s)"
  by (simp add: hist_inv_def saveToHistory_def Let_def)

lemma undo_inv: "hist_inv s \<Longrightarrow> \<exists>s'. undo s = Inr s' \<and> hist_inv s'"
  by (auto simp: hist_inv_def undo_def js_index_def)

lemma redo_inv: "hist_inv s \<Longrightarrow> \<exists>s'. redo s = Inr s' \<and> hist_inv s'"
  by (auto simp: hist_inv_def redo_def js_index_def)

lemma step_inv: "hist_inv s \<Longrightarrow> \<exists>s'. step x s = Inr s' \<and> hist_inv s'"
  by (cases x) (simp_all add: saveToHistory_inv undo_inv redo_inv)

lemma run_inv: "hist_inv s \<Longrightarrow> \<exists>s'. run xs s = Inr s' \<and> hist_inv s'"
proof (induction xs arbitrary: s)
  case Nil
  then show ?case by simp
next
  case (Cons x xs)
  from step_inv [OF Cons.prems] obtain s1 where s1: "step x s = Inr s1" "hist_inv s1"
    by blast
  from Cons.IH [OF s1(2)] s1(1) show ?case by simp
qed

text \<open>
  C2.  Start from a store with the empty history and cursor \<open>-1\<close> and make any
  sequence of \<open>saveToHistory\<close>, \<open>undo\<close> and \<open>redo\<close> calls.  After each call (after the
  first \<open>n\<close> calls, for every \<open>n\<close>) no call has thrown, and either the history is empty
  with cursor \<open>-1\<close> or the cursor is an index of the history.
\<close>

theorem history_cursor_invariant:
  assumes "history s = []" and "historyIndex s = - 1"
  shows "\<exists>s'. run (take n ops) s = Inr s'
           \<and> ((history s' = [] \<and> historyIndex s' = - 1)
              \<or> (0 \<le> historyIndex s' \<and> historyIndex s' < int (length (history s'))))"
proof -
  have "hist_inv s" using assms by (simp add: hist_inv_def)
  from run_inv [OF this, of "take n ops"] show ?thesis by (simp add: hist_inv_def)
qed

theorem history_cursor_invariant_witness:
  "history initial_state = [] \<and> historyIndex initial_state = - 1
   \<and> (\<exists>s'. run (take 3 [SaveToHistory, SaveToHistory, Undo, Redo]) initial_state = Inr s'
           \<and> ((history s' = [] \<and> historyIndex s' = - 1)
              \<or> (0 \<le> historyIndex s' \<and> historyIndex s' < int (length (history s')))))"
  using history_cursor_invariant [of initial_state 3 "[SaveToHistory, SaveToHistory, Undo, Redo]"]
  by (simp add: initial_state_def)

text \<open>
  C3, as the spec states it, fails.  In \<open>ex_undone\<close> the cursor is at the first entry
  and a later entry exists: \<open>undo\<close> does nothing there, and the \<open>redo\<close> that follows
  moves to the later entry, so the document after the two calls is not the document
  before them.
\<close>

theorem undo_then_redo_at_first_entry:
  "undo_redo ex_undone = Inr ex_two
   \<and> (nodes ex_two, edges ex_two) \<noteq> (nodes ex_undone, edges ex_undone)"
  by (simp add: undo_redo_def undo_def redo_def js_index_def ex_undone_def ex_two_def ex_node_def)

text \<open>
  C3, amended.  When \<open>undo\<close> has an entry to go back to (the cursor is above 0 and
  inside the history) and the live document is the entry at the cursor, \<open>undo\<close>
  followed by \<open>redo\<close> throws nothing and gives back the same store: the same nodes
  and edges, and the same cursor and history.
\<close>

theorem undo_redo_restores:
  assumes "0 < historyIndex s"
    and "historyIndex s < int (length (history s))"
    and "history s ! nat (historyIndex s) = current_snapshot s"
  shows "undo_redo s = Inr s"
proof -
  have "js_index (history s) (historyIndex s - 1) = Some (history s ! nat (historyIndex s - 1))"
    using assms(1,2) by (simp add: js_index_def)
  then have u: "undo s = Inr (s\<lparr>nodes := snap_nodes (history s ! nat (historyIndex s - 1)),
                               edges := snap_edges (history s ! nat (historyIndex s - 1)),
                               historyIndex := historyIndex s - 1\<rparr>)"
    using assms(1) by (simp add: undo_def)
  show ?thesis
    using assms by (simp add: undo_redo_def u redo_def js_index_def current_snapshot_def)
qed

theorem undo_redo_restores_witness:
  "0 < historyIndex ex_two \<and> historyIndex ex_two < int (length (history ex_two))
   \<and> history ex_two ! nat (historyIndex ex_two) = current_snapshot ex_two
   \<and> undo_redo ex_two = Inr ex_two"
  using undo_redo_restores [of ex_two]
  by (simp add: ex_two_def ex_undone_def current_snapshot_def)

text \<open>
  C4.  From a cursor that is at least \<open>-1\<close>, \<open>saveToHistory\<close> keeps the entries up to
  the cursor, drops the ones after it, appends the snapshot of the live nodes and
  edges and puts the cursor on the new last index; the live document is untouched.
  The scenario: from the history \<open>[S0, S1, S2]\<close> with cursor 2, two \<open>undo\<close> calls
  succeed and give cursor 0 and the document \<open>S0\<close>; making \<open>S3\<close> the live document
  and calling \<open>saveToHistory\<close> gives the history \<open>[S0, S3]\<close> with cursor 1.
\<close>

theorem saveToHistory_truncates_appends:
  "(- 1 \<le> historyIndex s \<longrightarrow>
      history (saveToHistory s)
        = take (nat (historyIndex s + 1)) (history s) @ [current_snapshot s]
      \<and> historyIndex (saveToHistory s) = int (length (history (saveToHistory s))) - 1
      \<and> nodes (saveToHistory s) = nodes s \<and> edges (saveToHistory s) = edges s)
   \<and> (history t = [S0, S1, S2] \<and> historyIndex t = 2 \<longrightarrow>
        (\<exists>t1 t2. undo t = Inr t1 \<and> undo t1 = Inr t2
           \<and> historyIndex t2 = 0 \<and> current_snapshot t2 = S0
           \<and> history (saveToHistory (setEdges (snap_edges S3) (setNodes (snap_nodes S3) t2)))
               = [S0, S3]
           \<and> historyIndex (saveToHistory (setEdges (snap_edges S3) (setNodes (snap_nodes S3) t2)))
               = 1))"
proof -
  have part1: "history (saveToHistory s)
        = take (nat (historyIndex s + 1)) (history s) @ [current_snapshot s]
      \<and> historyIndex (saveToHistory s) = int (length (history (saveToHistory s))) - 1
      \<and> nodes (saveToHistory s) = nodes s \<and> edges (saveToHistory s) = edges s"
    if "- 1 \<le> historyIndex s"
    using that by (simp add: saveToHistory_history saveToHistory_index)
  have part2: "\<exists>t1 t2. undo t = Inr t1 \<and> undo t1 = Inr t2
           \<and> historyIndex t2 = 0 \<and> current_snapshot t2 = S0
           \<and> history (saveToHistory (setEdges (snap_edges S3) (setNodes (snap_nodes S3) t2)))
               = [S0, S3]
           \<and> historyIndex (saveToHistory (setEdges (snap_edges S3) (setNodes (snap_nodes S3) t2)))
               = 1"
    if t: "history t = [S0, S1, S2] \<and> historyIndex t = 2"
  proof -
    define t1 where "t1 = t\<lparr>nodes := snap_nodes S1, edges := snap_edges S1, historyIndex := 1\<rparr>"
    define t2 where "t2 = t1\<lparr>nodes := snap_nodes S0, edges := snap_edges S0, historyIndex := 0\<rparr>"
    have u1: "undo t = Inr t1" using t by (simp add: undo_def js_index_def t1_def)
    have u2: "undo t1 = Inr t2" using t by (simp add: undo_def js_index_def t1_def t2_def)
    have a: "historyIndex t2 = 0 \<and> current_snapshot t2 = S0"
      by (simp add: t2_def current_snapshot_def)
    have b: "history (saveToHistory (setEdges (snap_edges S3) (setNodes (snap_nodes S3) t2)))
               = [S0, S3]"
      using t by (simp add: saveToHistory_def slice0_def setEdges_def setNodes_def t2_def t1_def)
    have c: "historyIndex (saveToHistory (setEdges (snap_edges S3) (setNodes (snap_nodes S3) t2)))
               = 1"
      using t by (simp add: saveToHistory_def slice0_def setEdges_def setNodes_def t2_def t1_def)
    from u1 u2 a b c show ?thesis by blast
  qed
  from part1 part2 show ?thesis by blast
qed

theorem saveToHistory_truncates_appends_witness:
  "- 1 \<le> historyIndex ex_undone
   \<and> history (saveToHistory ex_undone)
       = [\<lparr>snap_nodes = [ex_node ''n1'' Rectangle], snap_edges = []\<rparr>,
          current_snapshot ex_undone]
   \<and> historyIndex (saveToHistory ex_undone) = 1
   \<and> history ex_three
       = [\<lparr>snap_nodes = [], snap_edges = []\<rparr>,
          \<lparr>snap_nodes = [ex_node ''n1'' Rectangle], snap_edges = []\<rparr>,
          \<lparr>snap_nodes = [ex_node ''n1'' Rectangle, ex_node ''n2'' Rectangle], snap_edges = []\<rparr>]
   \<and> historyIndex ex_three = 2
   \<and> (\<exists>t1 t2. undo ex_three = Inr t1 \<and> undo t1 = Inr t2
         \<and> historyIndex t2 = 0
         \<and> current_snapshot t2 = \<lparr>snap_nodes = [], snap_edges = []\<rparr>
         \<and> history (saveToHistory
               (setEdges (snap_edges \<lparr>snap_nodes = [ex_node ''n3'' Circle], snap_edges = []\<rparr>)
                 (setNodes (snap_nodes \<lparr>snap_nodes = [ex_node ''n3'' Circle], snap_edges = []\<rparr>) t2)))
             = [\<lparr>snap_nodes = [], snap_edges = []\<rparr>,
                \<lparr>snap_nodes = [ex_node ''n3'' Circle], snap_edges = []\<rparr>]
         \<and> historyIndex (saveToHistory
               (setEdges (snap_edges \<lparr>snap_nodes = [ex_node ''n3'' Circle], snap_edges = []\<rparr>)
                 (setNodes (snap_nodes \<lparr>snap_nodes = [ex_node ''n3'' Circle], snap_edges = []\<rparr>) t2)))
             = 1)"
proof -
  have h1: "- 1 \<le> historyIndex ex_undone"
    by (simp add: ex_undone_def)
  have h2: "history ex_three
       = [\<lparr>snap_nodes = [], snap_edges = []\<rparr>,
          \<lparr>snap_nodes = [ex_node ''n1'' Rectangle], snap_edges = []\<rparr>,
          \<lparr>snap_nodes = [ex_node ''n1'' Rectangle, ex_node ''n2'' Rectangle], snap_edges = []\<rparr>]
       \<and> historyIndex ex_three = 2"
    by (simp add: ex_three_def)
  have h3: "take (nat (historyIndex ex_undone + 1)) (history ex_undone)
              = [\<lparr>snap_nodes = [ex_node ''n1'' Rectangle], snap_edges = []\<rparr>]"
    by (simp add: ex_undone_def)
  have h4: "length (history (saveToHistory ex_undone)) = 2"
    by (simp add: saveToHistory_def slice0_def ex_undone_def)
  from saveToHistory_truncates_appends
         [of ex_undone ex_three "\<lparr>snap_nodes = [], snap_edges = []\<rparr>"
             "\<lparr>snap_nodes = [ex_node ''n1'' Rectangle], snap_edges = []\<rparr>"
             "\<lparr>snap_nodes = [ex_node ''n1'' Rectangle, ex_node ''n2'' Rectangle], snap_edges = []\<rparr>"
             "\<lparr>snap_nodes = [ex_node ''n3'' Circle], snap_edges = []\<rparr>"]
       h1 h2 h3 h4
  show ?thesis by simp
qed

text \<open>
  C10.  Right after \<open>saveToHistory\<close> the cursor is the last index of the history, so a
  \<open>redo\<close> issued next changes nothing: it returns the very same store.
\<close>

theorem redo_after_saveToHistory_noop:
  "historyIndex (saveToHistory s) = int (length (history (saveToHistory s))) - 1
   \<and> redo (saveToHistory s) = Inr (saveToHistory s)"
  by (simp add: redo_def saveToHistory_def Let_def)

section \<open>Deleting a node\<close>

lemma deleteNode_nodes: "nodes (deleteNode i s) = filter (\<lambda>n. node_id n \<noteq> i) (nodes s)"
  by (simp add: deleteNode_def Let_def)

lemma deleteNode_edges:
  "edges (deleteNode i s) = filter (\<lambda>e. source e \<noteq> i \<and> target e \<noteq> i) (edges s)"
  by (simp add: deleteNode_def Let_def)

lemma deleteNode_commits:
  "history (deleteNode i s) \<noteq> []
   \<and> last (history (deleteNode i s)) = current_snapshot (deleteNode i s)
   \<and> historyIndex (deleteNode i s) = int (length (history (deleteNode i s))) - 1"
  by (simp add: deleteNode_def Let_def saveToHistory_def current_snapshot_def)

lemma deleteNode_at_end:
  "historyIndex s = int (length (history s)) - 1 \<Longrightarrow>
   length (history (deleteNode i s)) = Suc (length (history s))"
  by (simp add: deleteNode_def Let_def saveToHistory_def slice0_def)

text \<open>
  C6.  After the store's \<open>deleteNode\<close> the nodes are the old nodes without those whose
  id is the given one, and the edges are the old edges without those whose source or
  target is the given id: the elements that stay are the old elements themselves, in
  the old order.  No node with the id and no edge at it is left, and every other node
  and edge is still there.
\<close>

theorem deleteNode_frame:
  "nodes (deleteNode i s) = filter (\<lambda>n. node_id n \<noteq> i) (nodes s)
   \<and> edges (deleteNode i s) = filter (\<lambda>e. source e \<noteq> i \<and> target e \<noteq> i) (edges s)
   \<and> (\<forall>n \<in> set (nodes (deleteNode i s)). node_id n \<noteq> i)
   \<and> (\<forall>e \<in> set (edges (deleteNode i s)). source e \<noteq> i \<and> target e \<noteq> i)
   \<and> (\<forall>n \<in> set (nodes s). node_id n \<noteq> i \<longrightarrow> n \<in> set (nodes (deleteNode i s)))
   \<and> (\<forall>e \<in> set (edges s). source e \<noteq> i \<and> target e \<noteq> i \<longrightarrow> e \<in> set (edges (deleteNode i s)))"
  by (simp add: deleteNode_def Let_def)

theorem deleteNode_frame_witness:
  "nodes (deleteNode ''n1'' ex_doc) = [ex_node ''n2'' Rectangle]
   \<and> edges (deleteNode ''n1'' ex_doc) = []
   \<and> ex_node ''n2'' Rectangle \<in> set (nodes ex_doc) \<and> node_id (ex_node ''n2'' Rectangle) \<noteq> ''n1''
   \<and> ex_node ''n2'' Rectangle \<in> set (nodes (deleteNode ''n1'' ex_doc))"
  using deleteNode_frame [of "''n1''" ex_doc]
  by (simp add: ex_doc_def ex_node_def ex_edge_def)

text \<open>
  C7, as the spec states it, fails.  No node of \<open>ex_doc\<close> has the id \<open>n9\<close>, yet
  \<open>deleteNode\<close> changes the store (the history grows from one entry to two), and a
  second call changes it again (three entries): with the history log counted, the call
  is neither a no-op nor idempotent.
\<close>

theorem deleteNode_twice_grows_history:
  "deleteNode ''n9'' (deleteNode ''n9'' ex_doc) \<noteq> deleteNode ''n9'' ex_doc
   \<and> length (history (deleteNode ''n9'' ex_doc)) = 2
   \<and> length (history (deleteNode ''n9'' (deleteNode ''n9'' ex_doc))) = 3
   \<and> deleteNode ''n9'' ex_doc \<noteq> ex_doc"
  by (simp add: deleteNode_def saveToHistory_def slice0_def ex_doc_def Let_def)

text \<open>
  C7, amended.  \<open>deleteNode\<close> is total (it cannot throw).  On the document it is
  idempotent: a second call leaves the nodes and edges that the first call left.  When
  no node has the id the nodes are unchanged, and when no edge is at the id the edges
  are unchanged.  Every call commits: the history ends with the snapshot of the
  document the call leaves, the cursor is on it, and a second call makes the history
  one entry longer.
\<close>

theorem deleteNode_idempotent_on_document:
  "nodes (deleteNode i (deleteNode i s)) = nodes (deleteNode i s)
   \<and> edges (deleteNode i (deleteNode i s)) = edges (deleteNode i s)
   \<and> ((\<forall>n \<in> set (nodes s). node_id n \<noteq> i) \<longrightarrow> nodes (deleteNode i s) = nodes s)
   \<and> ((\<forall>e \<in> set (edges s). source e \<noteq> i \<and> target e \<noteq> i) \<longrightarrow> edges (deleteNode i s) = edges s)
   \<and> history (deleteNode i s) \<noteq> []
   \<and> last (history (deleteNode i s)) = current_snapshot (deleteNode i s)
   \<and> historyIndex (deleteNode i s) = int (length (history (deleteNode i s))) - 1
   \<and> length (history (deleteNode i (deleteNode i s))) = Suc (length (history (deleteNode i s)))"
proof -
  have a: "nodes (deleteNode i (deleteNode i s)) = nodes (deleteNode i s)"
    by (simp add: deleteNode_nodes)
  have b: "edges (deleteNode i (deleteNode i s)) = edges (deleteNode i s)"
    by (simp add: deleteNode_edges)
  have c: "(\<forall>n \<in> set (nodes s). node_id n \<noteq> i) \<longrightarrow> nodes (deleteNode i s) = nodes s"
    by (simp add: deleteNode_nodes)
  have d: "(\<forall>e \<in> set (edges s). source e \<noteq> i \<and> target e \<noteq> i) \<longrightarrow> edges (deleteNode i s) = edges s"
    by (simp add: deleteNode_edges)
  note e = deleteNode_commits [of i s]
  have f: "length (history (deleteNode i (deleteNode i s))) = Suc (length (history (deleteNode i s)))"
    using e by (simp add: deleteNode_at_end)
  from a b c d e f show ?thesis by blast
qed

theorem deleteNode_idempotent_on_document_witness:
  "''n9'' \<notin> set (map node_id (nodes ex_doc))
   \<and> ''n9'' \<notin> set (map source (edges ex_doc))
   \<and> ''n9'' \<notin> set (map target (edges ex_doc))
   \<and> nodes (deleteNode ''n9'' ex_doc) = nodes ex_doc
   \<and> edges (deleteNode ''n9'' ex_doc) = edges ex_doc
   \<and> nodes (deleteNode ''n1'' (deleteNode ''n1'' ex_doc)) = nodes (deleteNode ''n1'' ex_doc)
   \<and> length (history (deleteNode ''n9'' (deleteNode ''n9'' ex_doc)))
       = Suc (length (history (deleteNode ''n9'' ex_doc)))"
  using deleteNode_idempotent_on_document [of "''n9''" ex_doc]
    deleteNode_idempotent_on_document [of "''n1''" ex_doc]
  by (simp add: ex_doc_def ex_node_def ex_edge_def)

text \<open>
  C1.  The delete handlers of the node popover and of the context menu filter the
  nodes only.  On \<open>ex_doc\<close> (nodes \<open>n1\<close> and \<open>n2\<close>, edge \<open>e1\<close> from \<open>n1\<close> to \<open>n2\<close>)
  deleting \<open>n1\<close> through either handler leaves \<open>e1\<close>, whose source is the deleted
  node, in the store; the store's \<open>deleteNode\<close> and the eraser click remove it.
\<close>

theorem popover_delete_leaves_edges:
  "nodes (handleDelete ''n1'' ex_doc) = [ex_node ''n2'' Rectangle]
   \<and> edges (handleDelete ''n1'' ex_doc) = [ex_edge ''e1'' ''n1'' ''n2'']
   \<and> nodes (NodeContextMenu_deleteNode ''n1'' ex_doc) = [ex_node ''n2'' Rectangle]
   \<and> edges (NodeContextMenu_deleteNode ''n1'' ex_doc) = [ex_edge ''e1'' ''n1'' ''n2'']
   \<and> source (ex_edge ''e1'' ''n1'' ''n2'') = ''n1''
   \<and> edges (deleteNode ''n1'' ex_doc) = []
   \<and> edges (onNodeClick (ex_node ''n1'' Rectangle) (setCurrentTool Eraser ex_doc)) = []"
  by (simp add: handleDelete_def NodeContextMenu_deleteNode_def deleteNode_def onNodeClick_def
      setNodes_def setEdges_def setCurrentTool_def Let_def ex_doc_def ex_node_def ex_edge_def)

section \<open>Creating a node\<close>

text \<open>
  C9.  Start from a store with no nodes, no edges and no history whose tool is
  \<open>rectangle\<close>, and click the mounted canvas where the projector gives \<open>(50, 60)\<close>.
  The store then holds exactly one node, at \<open>(50, 60)\<close>, of node type rectangle,
  120 wide and 80 high; the history holds exactly one entry, the snapshot of that
  document; and the tool is \<open>select\<close>.
\<close>

theorem onPaneClick_rectangle:
  assumes "nodes s = []" and "edges s = []" and "history s = []"
    and "currentTool s = Rectangle"
    and "project (clientX e - rect_left b, clientY e - rect_top b) = (50, 60)"
  shows "nodes (onPaneClick project (Some b) now e s)
           = [\<lparr>node_id = ''node-'' @ string_of_nat now, node_type = ''custom'',
               position = (50, 60),
               data = \<lparr>label = [], nodeType = Rectangle, width = Some 120, height = Some 80,
                       backgroundColor = None, textColor = None, borderStyle = None\<rparr>\<rparr>]
         \<and> edges (onPaneClick project (Some b) now e s) = []
         \<and> history (onPaneClick project (Some b) now e s)
             = [current_snapshot (onPaneClick project (Some b) now e s)]
         \<and> length (history (onPaneClick project (Some b) now e s)) = 1
         \<and> historyIndex (onPaneClick project (Some b) now e s) = 0
         \<and> currentTool (onPaneClick project (Some b) now e s) = Select"
  using assms
  by (simp add: onPaneClick_def Let_def setCurrentTool_def setNodes_def saveToHistory_def
      slice0_def current_snapshot_def)

theorem onPaneClick_rectangle_witness:
  "nodes (setCurrentTool Rectangle initial_state) = []
   \<and> edges (setCurrentTool Rectangle initial_state) = []
   \<and> history (setCurrentTool Rectangle initial_state) = []
   \<and> currentTool (setCurrentTool Rectangle initial_state) = Rectangle
   \<and> map position (nodes (onPaneClick (\<lambda>p. p) (Some \<lparr>rect_left = 10, rect_top = 20\<rparr>) 7
                    \<lparr>clientX = 60, clientY = 80\<rparr> (setCurrentTool Rectangle initial_state)))
       = [(50, 60)]
   \<and> length (history (onPaneClick (\<lambda>p. p) (Some \<lparr>rect_left = 10, rect_top = 20\<rparr>) 7
                    \<lparr>clientX = 60, clientY = 80\<rparr> (setCurrentTool Rectangle initial_state))) = 1
   \<and> currentTool (onPaneClick (\<lambda>p. p) (Some \<lparr>rect_left = 10, rect_top = 20\<rparr>) 7
                    \<lparr>clientX = 60, clientY = 80\<rparr> (setCurrentTool Rectangle initial_state)) = Select"
  using onPaneClick_rectangle [of "setCurrentTool Rectangle initial_state" "\<lambda>p. p"
      "\<lparr>clientX = 60, clientY = 80\<rparr>" "\<lparr>rect_left = 10, rect_top = 20\<rparr>" 7]
  by (simp add: setCurrentTool_def initial_state_def)

section \<open>Resizing a circle\<close>

lemma updateNodeData_nodes:
  "nodes (updateNodeData cn i u s)
     = map (\<lambda>n. if node_id n = i then n\<lparr>data := merge_data (data n) u\<rparr> else n) cn"
  by (simp add: updateNodeData_def Let_def setNodes_def)

lemma merge_size_eq:
  "merge_data d (size_updates w h) = d\<lparr>width := Some w, height := Some h\<rparr>"
  by (cases d) (simp add: merge_data_def size_updates_def spread_def)

lemma updateNodeData_resized:
  "nodes (updateNodeData cn i (size_updates sz sz) s) = map (resized i sz) cn"
  by (simp add: updateNodeData_nodes merge_size_eq resized_def)

lemma resized_resized: "resized i sz (resized i z n) = resized i sz n"
  by (simp add: resized_def)

lemma map_resized_resized: "map (resized i sz) (map (resized i z) ns) = map (resized i sz) ns"
  by (simp add: resized_resized)

lemma find_resized:
  "find (\<lambda>n. node_id n = i) (map (resized i sz) ns)
     = map_option (resized i sz) (find (\<lambda>n. node_id n = i) ns)"
  by (induction ns) (auto simp: resized_def)

lemma find_data_resized:
  assumes "find_data i s = Some d" and "nodes s' = map (resized i sz) (nodes s)"
  shows "find_data i s' = Some (d\<lparr>width := Some sz, height := Some sz\<rparr>)"
proof -
  from assms(1) obtain n where n: "find (\<lambda>n. node_id n = i) (nodes s) = Some n" "d = data n"
    by (auto simp: find_data_def)
  from n(1) have "node_id n = i" by (auto simp: find_Some_iff)
  then show ?thesis
    by (simp add: find_data_def assms(2) find_resized n resized_def)
qed

lemma list_all_square_resized:
  "list_all (\<lambda>n. node_id n \<noteq> i \<or> (width (data n) \<noteq> None \<and> width (data n) = height (data n)))
     (map (resized i sz) ns)"
  by (induction ns) (simp_all add: resized_def)

lemma square_at_resized:
  assumes "nodes s' = map (resized i sz) ns"
  shows "square_at i s'"
  unfolding square_at_def assms by (rule list_all_square_resized)

lemma corner_cases:
  assumes "handle \<in> set corner_handles"
  obtains "handle = ''top-left''" | "handle = ''top-right''"
    | "handle = ''bottom-left''" | "handle = ''bottom-right''"
  using assms by (auto simp: corner_handles_def)

lemma resizeMove_size_circle_size:
  assumes "handle \<in> set corner_handles" and "nodeType d' = Circle"
  shows "resizeMove_size (handleResizeStart d e0 handle) d' e
           = Some (circle_size (50, 30) handle (or_default (width d) 120, or_default (height d) 80)
                     (clientX e0, clientY e0) (clientX e, clientY e),
                   circle_size (50, 30) handle (or_default (width d) 120, or_default (height d) 80)
                     (clientX e0, clientY e0) (clientX e, clientY e))"
  using assms(1)
proof (cases rule: corner_cases)
  case 1
  then show ?thesis using assms(2)
    by (simp add: resizeMove_size_def handleResizeStart_def circle_size_def Let_def)
next
  case 2
  then show ?thesis using assms(2)
    by (simp add: resizeMove_size_def handleResizeStart_def circle_size_def Let_def)
next
  case 3
  then show ?thesis using assms(2)
    by (simp add: resizeMove_size_def handleResizeStart_def circle_size_def Let_def)
next
  case 4
  then show ?thesis using assms(2)
    by (simp add: resizeMove_size_def handleResizeStart_def circle_size_def Let_def)
qed

lemma mouseMove_size_circle_size:
  assumes "handle \<in> set corner_handles" and "nodeType d = Circle"
  shows "mouseMove_size (handleResizeStart_popup i d ns e0 handle) e
           = (circle_size (60, 40) handle (or_default (width d) 120, or_default (height d) 80)
                     (clientX e0, clientY e0) (clientX e, clientY e),
              circle_size (60, 40) handle (or_default (width d) 120, or_default (height d) 80)
                     (clientX e0, clientY e0) (clientX e, clientY e))"
  using assms(1)
proof (cases rule: corner_cases)
  case 1
  then show ?thesis using assms(2)
    by (simp add: mouseMove_size_def handleResizeStart_popup_def circle_size_def Let_def)
next
  case 2
  then show ?thesis using assms(2)
    by (simp add: mouseMove_size_def handleResizeStart_popup_def circle_size_def Let_def)
next
  case 3
  then show ?thesis using assms(2)
    by (simp add: mouseMove_size_def handleResizeStart_popup_def circle_size_def Let_def)
next
  case 4
  then show ?thesis using assms(2)
    by (simp add: mouseMove_size_def handleResizeStart_popup_def circle_size_def Let_def)
qed


lemma resize_moves_None: "find_data i s = None \<Longrightarrow> resize_moves sess i ms s = s"
  by (cases ms) simp_all

lemma resize_moves_append:
  "resize_moves sess i (xs @ ys) s = resize_moves sess i ys (resize_moves sess i xs s)"
  by (induction xs arbitrary: s) (auto simp: resize_moves_None split: option.splits)

lemma handleResizeMove_circle_nodes:
  assumes "handle \<in> set corner_handles" and "nodeType d' = Circle"
  shows "nodes (handleResizeMove (handleResizeStart d e0 handle) i d' e s)
           = map (resized i (circle_size (50, 30) handle
                     (or_default (width d) 120, or_default (height d) 80)
                     (clientX e0, clientY e0) (clientX e, clientY e))) (nodes s)"
  by (simp add: handleResizeMove_def resizeMove_size_circle_size [OF assms]
      updateNodeData_resized)

text \<open>Between moves the document differs from the start only in the sizes of the node.\<close>

lemma resize_moves_frame:
  assumes "handle \<in> set corner_handles"
  shows "find_data i s' = Some d' \<Longrightarrow> nodeType d' = Circle \<Longrightarrow>
         map (resized i z) (nodes s') = map (resized i z) ns \<Longrightarrow>
         (\<exists>d''. find_data i (resize_moves (handleResizeStart d e0 handle) i ms s') = Some d''
                \<and> nodeType d'' = Circle)
         \<and> map (resized i z) (nodes (resize_moves (handleResizeStart d e0 handle) i ms s'))
             = map (resized i z) ns"
proof (induction ms arbitrary: s' d')
  case Nil
  then show ?case by simp
next
  case (Cons e es)
  let ?s1 = "handleResizeMove (handleResizeStart d e0 handle) i d' e s'"
  note n1 = handleResizeMove_circle_nodes [OF assms Cons.prems(2), of d e0 i e s']
  have f1: "find_data i ?s1 = Some (d'\<lparr>width := Some (circle_size (50, 30) handle
                     (or_default (width d) 120, or_default (height d) 80)
                     (clientX e0, clientY e0) (clientX e, clientY e)),
                   height := Some (circle_size (50, 30) handle
                     (or_default (width d) 120, or_default (height d) 80)
                     (clientX e0, clientY e0) (clientX e, clientY e))\<rparr>)"
    by (rule find_data_resized [OF Cons.prems(1) n1])
  have t1: "nodeType (d'\<lparr>width := Some (circle_size (50, 30) handle
                     (or_default (width d) 120, or_default (height d) 80)
                     (clientX e0, clientY e0) (clientX e, clientY e)),
                   height := Some (circle_size (50, 30) handle
                     (or_default (width d) 120, or_default (height d) 80)
                     (clientX e0, clientY e0) (clientX e, clientY e))\<rparr>) = Circle"
    using Cons.prems(2) by simp
  have m1: "map (resized i z) (nodes ?s1) = map (resized i z) ns"
    using Cons.prems(3) by (simp only: n1 map_resized_resized)
  from Cons.IH [OF f1 t1 m1] Cons.prems(1) show ?case by simp
qed

text \<open>
  C8, as the spec states it, fails.  The canvas creates a circle 120 wide and 80
  high.  After a resize start that no pointer move follows (the empty sequence of
  moves) nothing has been written, in either variant of the node component: the
  stored width and height of the circle are still 120 and 80, which are not equal.
\<close>

theorem circle_not_square_before_first_move:
  "map (width \<circ> data)
       (nodes (onPaneClick id (Some \<lparr>rect_left = 0, rect_top = 0\<rparr>) 7
                 \<lparr>clientX = 0, clientY = 0\<rparr> (setCurrentTool Circle initial_state)))
     = [Some 120]
   \<and> map (height \<circ> data)
       (nodes (onPaneClick id (Some \<lparr>rect_left = 0, rect_top = 0\<rparr>) 7
                 \<lparr>clientX = 0, clientY = 0\<rparr> (setCurrentTool Circle initial_state)))
     = [Some 80]
   \<and> find_data ''c1'' ex_circle_doc = Some (data (ex_node ''c1'' Circle))
   \<and> nodeType (data (ex_node ''c1'' Circle)) = Circle
   \<and> nodes (resize_drag ''c1'' ''bottom-right'' \<lparr>clientX = 0, clientY = 0\<rparr> [] ex_circle_doc)
       = [ex_node ''c1'' Circle]
   \<and> nodes (resize_drag_popup ''c1'' ''bottom-right'' \<lparr>clientX = 0, clientY = 0\<rparr> []
               ex_circle_doc)
       = [ex_node ''c1'' Circle]
   \<and> width (data (ex_node ''c1'' Circle)) = Some 120
   \<and> height (data (ex_node ''c1'' Circle)) = Some 80
   \<and> \<not> square_at ''c1''
         (resize_drag ''c1'' ''bottom-right'' \<lparr>clientX = 0, clientY = 0\<rparr> [] ex_circle_doc)
   \<and> \<not> square_at ''c1''
         (resize_drag_popup ''c1'' ''bottom-right'' \<lparr>clientX = 0, clientY = 0\<rparr> []
            ex_circle_doc)"
  by (simp add: onPaneClick_def setCurrentTool_def setNodes_def initial_state_def Let_def
      find_data_def ex_circle_doc_def ex_node_def resize_drag_def resize_drag_popup_def
      square_at_def)

text \<open>
  C8, amended.  Take a node of the store that is a circle and start a resize at one
  of its four corner handles.  Every pointer move then writes the same number for
  width and height: the smaller of the new width and the new height, each the start
  size plus the pointer's travel towards the dragged corner, not below the floor of
  the variant (50 by 30 in the context-menu variant, 60 by 40 in the popover
  variant).  So after any sequence of moves that is not empty the store holds the
  old nodes, in the old order, where the nodes with that id have got this size of the
  last move for both width and height and every other node is untouched; the circle
  is still there and its stored width and height are equal.
\<close>

theorem circle_resize_writes_min:
  assumes "find_data i s = Some d" and "nodeType d = Circle"
    and "handle \<in> set corner_handles"
  shows "nodes (resize_drag i handle e0 (ms @ [m]) s)
           = map (resized i (circle_size (50, 30) handle
                    (or_default (width d) 120, or_default (height d) 80)
                    (clientX e0, clientY e0) (clientX m, clientY m))) (nodes s)
       \<and> find_data i (resize_drag i handle e0 (ms @ [m]) s)
           = Some (d\<lparr>width := Some (circle_size (50, 30) handle
                             (or_default (width d) 120, or_default (height d) 80)
                             (clientX e0, clientY e0) (clientX m, clientY m)),
                     height := Some (circle_size (50, 30) handle
                             (or_default (width d) 120, or_default (height d) 80)
                             (clientX e0, clientY e0) (clientX m, clientY m))\<rparr>)
       \<and> square_at i (resize_drag i handle e0 (ms @ [m]) s)
       \<and> nodes (resize_drag_popup i handle e0 (ms @ [m]) s)
           = map (resized i (circle_size (60, 40) handle
                    (or_default (width d) 120, or_default (height d) 80)
                    (clientX e0, clientY e0) (clientX m, clientY m))) (nodes s)
       \<and> find_data i (resize_drag_popup i handle e0 (ms @ [m]) s)
           = Some (d\<lparr>width := Some (circle_size (60, 40) handle
                             (or_default (width d) 120, or_default (height d) 80)
                             (clientX e0, clientY e0) (clientX m, clientY m)),
                     height := Some (circle_size (60, 40) handle
                             (or_default (width d) 120, or_default (height d) 80)
                             (clientX e0, clientY e0) (clientX m, clientY m))\<rparr>)
       \<and> square_at i (resize_drag_popup i handle e0 (ms @ [m]) s)
       \<and> (\<forall>d' e. nodeType d' = Circle \<longrightarrow>
             resizeMove_size (handleResizeStart d e0 handle) d' e
               = Some (circle_size (50, 30) handle
                         (or_default (width d) 120, or_default (height d) 80)
                         (clientX e0, clientY e0) (clientX e, clientY e),
                       circle_size (50, 30) handle
                         (or_default (width d) 120, or_default (height d) 80)
                         (clientX e0, clientY e0) (clientX e, clientY e)))
       \<and> (\<forall>ns e. mouseMove_size (handleResizeStart_popup i d ns e0 handle) e
               = (circle_size (60, 40) handle
                    (or_default (width d) 120, or_default (height d) 80)
                    (clientX e0, clientY e0) (clientX e, clientY e),
                  circle_size (60, 40) handle
                    (or_default (width d) 120, or_default (height d) 80)
                    (clientX e0, clientY e0) (clientX e, clientY e)))"
proof -
  let ?sess = "handleResizeStart d e0 handle"
  let ?s' = "resize_moves ?sess i ms s"
  from resize_moves_frame [OF assms(3) assms(1,2), of _ "nodes s" d e0 ms]
  obtain d' where d': "find_data i ?s' = Some d'" "nodeType d' = Circle"
    and fr: "\<And>z. map (resized i z) (nodes ?s') = map (resized i z) (nodes s)"
    by blast
  have "resize_drag i handle e0 (ms @ [m]) s = handleResizeMove ?sess i d' m ?s'"
    using assms(1) d'(1) by (simp add: resize_drag_def resize_moves_append)
  then have a1: "nodes (resize_drag i handle e0 (ms @ [m]) s)
           = map (resized i (circle_size (50, 30) handle
                    (or_default (width d) 120, or_default (height d) 80)
                    (clientX e0, clientY e0) (clientX m, clientY m))) (nodes s)"
    by (simp only: handleResizeMove_circle_nodes [OF assms(3) d'(2)] fr)
  note a2 = find_data_resized [OF assms(1) a1]
  note a3 = square_at_resized [OF a1]
  let ?c = "handleResizeStart_popup i d (nodes s) e0 handle"
  have "resize_drag_popup i handle e0 (ms @ [m]) s
          = handleMouseMove ?c m (foldl (\<lambda>s' e. handleMouseMove ?c e s') s ms)"
    using assms(1) by (simp add: resize_drag_popup_def)
  then have b1: "nodes (resize_drag_popup i handle e0 (ms @ [m]) s)
           = map (resized i (circle_size (60, 40) handle
                    (or_default (width d) 120, or_default (height d) 80)
                    (clientX e0, clientY e0) (clientX m, clientY m))) (nodes s)"
    by (simp add: handleMouseMove_def mouseMove_size_circle_size [OF assms(3,2)]
        updateNodeData_resized)
       (simp add: handleResizeStart_popup_def)
  note b2 = find_data_resized [OF assms(1) b1]
  note b3 = square_at_resized [OF b1]
  have c: "\<forall>d' e. nodeType d' = Circle \<longrightarrow>
             resizeMove_size (handleResizeStart d e0 handle) d' e
               = Some (circle_size (50, 30) handle
                         (or_default (width d) 120, or_default (height d) 80)
                         (clientX e0, clientY e0) (clientX e, clientY e),
                       circle_size (50, 30) handle
                         (or_default (width d) 120, or_default (height d) 80)
                         (clientX e0, clientY e0) (clientX e, clientY e))"
    using resizeMove_size_circle_size [OF assms(3)] by blast
  have e: "\<forall>ns e. mouseMove_size (handleResizeStart_popup i d ns e0 handle) e
               = (circle_size (60, 40) handle
                    (or_default (width d) 120, or_default (height d) 80)
                    (clientX e0, clientY e0) (clientX e, clientY e),
                  circle_size (60, 40) handle
                    (or_default (width d) 120, or_default (height d) 80)
                    (clientX e0, clientY e0) (clientX e, clientY e))"
    using mouseMove_size_circle_size [OF assms(3,2)] by blast
  from a1 a2 a3 b1 b2 b3 c e show ?thesis by blast
qed

theorem circle_resize_writes_min_witness:
  "find_data ''c1'' ex_circle_doc = Some (data (ex_node ''c1'' Circle))
   \<and> nodeType (data (ex_node ''c1'' Circle)) = Circle
   \<and> ''bottom-right'' \<in> set corner_handles
   \<and> nodes (resize_drag ''c1'' ''bottom-right'' \<lparr>clientX = 0, clientY = 0\<rparr>
        ([\<lparr>clientX = 10, clientY = 50\<rparr>] @ [\<lparr>clientX = 30, clientY = 5\<rparr>]) ex_circle_doc)
       = [resized ''c1'' 85 (ex_node ''c1'' Circle)]
   \<and> nodes (resize_drag_popup ''c1'' ''bottom-right'' \<lparr>clientX = 0, clientY = 0\<rparr>
        ([\<lparr>clientX = 10, clientY = 50\<rparr>] @ [\<lparr>clientX = 30, clientY = 5\<rparr>]) ex_circle_doc)
       = [resized ''c1'' 85 (ex_node ''c1'' Circle)]
   \<and> square_at ''c1'' (resize_drag ''c1'' ''bottom-right'' \<lparr>clientX = 0, clientY = 0\<rparr>
        ([\<lparr>clientX = 10, clientY = 50\<rparr>] @ [\<lparr>clientX = 30, clientY = 5\<rparr>]) ex_circle_doc)
   \<and> resizeMove_size
        (handleResizeStart (data (ex_node ''c1'' Circle)) \<lparr>clientX = 0, clientY = 0\<rparr>
           ''bottom-right'')
        (data (ex_node ''c1'' Circle)) \<lparr>clientX = 30, clientY = 5\<rparr>
       = Some (85, 85)
   \<and> mouseMove_size
        (handleResizeStart_popup ''c1'' (data (ex_node ''c1'' Circle)) []
           \<lparr>clientX = 0, clientY = 0\<rparr> ''bottom-right'')
        \<lparr>clientX = 30, clientY = 5\<rparr>
       = (85, 85)"
proof -
  have h1: "find_data ''c1'' ex_circle_doc = Some (data (ex_node ''c1'' Circle))"
    by (simp add: find_data_def ex_circle_doc_def initial_state_def ex_node_def)
  have h2: "nodeType (data (ex_node ''c1'' Circle)) = Circle"
    by (simp add: ex_node_def)
  have h3: "''bottom-right'' \<in> set corner_handles"
    by (simp add: corner_handles_def)
  have v50: "circle_size (50, 30) ''bottom-right''
               (or_default (width (data (ex_node ''c1'' Circle))) 120,
                or_default (height (data (ex_node ''c1'' Circle))) 80)
               (clientX \<lparr>clientX = 0, clientY = 0\<rparr>, clientY \<lparr>clientX = 0, clientY = 0\<rparr>)
               (clientX \<lparr>clientX = 30, clientY = 5\<rparr>, clientY \<lparr>clientX = 30, clientY = 5\<rparr>) = 85"
    by (simp add: circle_size_def or_default_def ex_node_def)
  have v60: "circle_size (60, 40) ''bottom-right''
               (or_default (width (data (ex_node ''c1'' Circle))) 120,
                or_default (height (data (ex_node ''c1'' Circle))) 80)
               (clientX \<lparr>clientX = 0, clientY = 0\<rparr>, clientY \<lparr>clientX = 0, clientY = 0\<rparr>)
               (clientX \<lparr>clientX = 30, clientY = 5\<rparr>, clientY \<lparr>clientX = 30, clientY = 5\<rparr>) = 85"
    by (simp add: circle_size_def or_default_def ex_node_def)
  have ns: "nodes ex_circle_doc = [ex_node ''c1'' Circle]"
    by (simp add: ex_circle_doc_def initial_state_def)
  note inst = circle_resize_writes_min [OF h1 h2 h3, of "\<lparr>clientX = 0, clientY = 0\<rparr>"
         "[\<lparr>clientX = 10, clientY = 50\<rparr>]" "\<lparr>clientX = 30, clientY = 5\<rparr>"]
  from inst have a: "nodes (resize_drag ''c1'' ''bottom-right'' \<lparr>clientX = 0, clientY = 0\<rparr>
        ([\<lparr>clientX = 10, clientY = 50\<rparr>] @ [\<lparr>clientX = 30, clientY = 5\<rparr>]) ex_circle_doc)
       = [resized ''c1'' 85 (ex_node ''c1'' Circle)]"
    unfolding v50 ns by simp
  from inst have b: "nodes (resize_drag_popup ''c1'' ''bottom-right'' \<lparr>clientX = 0, clientY = 0\<rparr>
        ([\<lparr>clientX = 10, clientY = 50\<rparr>] @ [\<lparr>clientX = 30, clientY = 5\<rparr>]) ex_circle_doc)
       = [resized ''c1'' 85 (ex_node ''c1'' Circle)]"
    unfolding v60 ns by simp
  from inst have c: "square_at ''c1'' (resize_drag ''c1'' ''bottom-right''
        \<lparr>clientX = 0, clientY = 0\<rparr>
        ([\<lparr>clientX = 10, clientY = 50\<rparr>] @ [\<lparr>clientX = 30, clientY = 5\<rparr>]) ex_circle_doc)"
    by blast
  from inst h2 have "resizeMove_size
        (handleResizeStart (data (ex_node ''c1'' Circle)) \<lparr>clientX = 0, clientY = 0\<rparr>
           ''bottom-right'')
        (data (ex_node ''c1'' Circle)) \<lparr>clientX = 30, clientY = 5\<rparr>
       = Some (circle_size (50, 30) ''bottom-right''
               (or_default (width (data (ex_node ''c1'' Circle))) 120,
                or_default (height (data (ex_node ''c1'' Circle))) 80)
               (clientX \<lparr>clientX = 0, clientY = 0\<rparr>, clientY \<lparr>clientX = 0, clientY = 0\<rparr>)
               (clientX \<lparr>clientX = 30, clientY = 5\<rparr>, clientY \<lparr>clientX = 30, clientY = 5\<rparr>),
               circle_size (50, 30) ''bottom-right''
               (or_default (width (data (ex_node ''c1'' Circle))) 120,
                or_default (height (data (ex_node ''c1'' Circle))) 80)
               (clientX \<lparr>clientX = 0, clientY = 0\<rparr>, clientY \<lparr>clientX = 0, clientY = 0\<rparr>)
               (clientX \<lparr>clientX = 30, clientY = 5\<rparr>, clientY \<lparr>clientX = 30, clientY = 5\<rparr>))"
    by blast
  then have d: "resizeMove_size
        (handleResizeStart (data (ex_node ''c1'' Circle)) \<lparr>clientX = 0, clientY = 0\<rparr>
           ''bottom-right'')
        (data (ex_node ''c1'' Circle)) \<lparr>clientX = 30, clientY = 5\<rparr>
       = Some (85, 85)"
    unfolding v50 .
  from inst have "mouseMove_size
        (handleResizeStart_popup ''c1'' (data (ex_node ''c1'' Circle)) []
           \<lparr>clientX = 0, clientY = 0\<rparr> ''bottom-right'')
        \<lparr>clientX = 30, clientY = 5\<rparr>
       = (circle_size (60, 40) ''bottom-right''
               (or_default (width (data (ex_node ''c1'' Circle))) 120,
                or_default (height (data (ex_node ''c1'' Circle))) 80)
               (clientX \<lparr>clientX = 0, clientY = 0\<rparr>, clientY \<lparr>clientX = 0, clientY = 0\<rparr>)
               (clientX \<lparr>clientX = 30, clientY = 5\<rparr>, clientY \<lparr>clientX = 30, clientY = 5\<rparr>),
          circle_size (60, 40) ''bottom-right''
               (or_default (width (data (ex_node ''c1'' Circle))) 120,
                or_default (height (data (ex_node ''c1'' Circle))) 80)
               (clientX \<lparr>clientX = 0, clientY = 0\<rparr>, clientY \<lparr>clientX = 0, clientY = 0\<rparr>)
               (clientX \<lparr>clientX = 30, clientY = 5\<rparr>, clientY \<lparr>clientX = 30, clientY = 5\<rparr>))"
    by blast
  then have e: "mouseMove_size
        (handleResizeStart_popup ''c1'' (data (ex_node ''c1'' Circle)) []
           \<lparr>clientX = 0, clientY = 0\<rparr> ''bottom-right'')
        \<lparr>clientX = 30, clientY = 5\<rparr>
       = (85, 85)"
    unfolding v60 .
  from h1 h2 h3 a b c d e show ?thesis by blast
qed

section \<open>What a snapshot shares with the live document\<close>

lemma saveToHistory_h_last:
  "history_h (saveToHistory_h s) \<noteq> []
   \<and> last (history_h (saveToHistory_h s)) = (next_addr (heap_of s), Suc (next_addr (heap_of s)))"
  by (simp add: saveToHistory_h_def copy_array_def Let_def)

lemma saveToHistory_h_refs:
  "nodes_ref (saveToHistory_h s) = nodes_ref s \<and> edges_ref (saveToHistory_h s) = edges_ref s"
  by (simp add: saveToHistory_h_def copy_array_def Let_def)

lemma saveToHistory_h_arrays:
  "arrays (heap_of (saveToHistory_h s))
     = (arrays (heap_of s))
         (next_addr (heap_of s) := arrays (heap_of s) (nodes_ref s),
          Suc (next_addr (heap_of s)) :=
            ((arrays (heap_of s))(next_addr (heap_of s) := arrays (heap_of s) (nodes_ref s)))
              (edges_ref s))"
  by (simp add: saveToHistory_h_def copy_array_def Let_def)

lemma saveToHistory_h_objects:
  "objects (heap_of (saveToHistory_h s)) = objects (heap_of s)"
  by (simp add: saveToHistory_h_def copy_array_def Let_def)

lemma step_h_keeps:
  assumes "array_write_within as x" and "a \<notin> set as" and "a < next_addr (heap_of t)"
    and "step_h x t = Inr t'"
  shows "arrays (heap_of t') a = arrays (heap_of t) a \<and> a < next_addr (heap_of t')"
proof (cases x)
  case SaveToHistoryH
  with assms(3,4) show ?thesis
    by (auto simp: saveToHistory_h_def copy_array_def Let_def)
next
  case UndoH
  with assms(3,4) show ?thesis
    by (auto simp: undo_h_def split: if_splits option.splits)
next
  case RedoH
  with assms(3,4) show ?thesis
    by (auto simp: redo_h_def split: if_splits option.splits)
next
  case (ArrayWrite b xs)
  with assms show ?thesis
    by (auto simp: array_write_def)
next
  case (ObjectWrite b v)
  with assms(3,4) show ?thesis
    by (auto simp: object_write_def)
qed

lemma run_h_keeps:
  "list_all (array_write_within as) ops \<Longrightarrow> a \<notin> set as \<Longrightarrow> a < next_addr (heap_of t) \<Longrightarrow>
   run_h ops t = Inr t' \<Longrightarrow> arrays (heap_of t') a = arrays (heap_of t) a"
proof (induction ops arbitrary: t)
  case Nil
  then show ?case by simp
next
  case (Cons x xs)
  from Cons.prems(4) obtain t1 where t1: "step_h x t = Inr t1" "run_h xs t1 = Inr t'"
    by (auto split: sum.splits)
  from Cons.prems(1) have x: "array_write_within as x" and xs: "list_all (array_write_within as) xs"
    by simp_all
  from step_h_keeps [OF x Cons.prems(2,3) t1(1)]
  have k: "arrays (heap_of t1) a = arrays (heap_of t) a" "a < next_addr (heap_of t1)"
    by simp_all
  from Cons.IH [OF xs Cons.prems(2) k(2) t1(2)] k(1) show ?case by simp
qed

lemma undo_h_alias:
  "0 < historyIndex_h t \<Longrightarrow> undo_h t = Inr t' \<Longrightarrow>
   historyIndex_h t' = historyIndex_h t - 1
   \<and> js_index (history_h t) (historyIndex_h t - 1) = Some (nodes_ref t', edges_ref t')"
  by (auto simp: undo_h_def split: option.splits)

lemma redo_h_alias:
  "historyIndex_h t < int (length (history_h t)) - 1 \<Longrightarrow> redo_h t = Inr t' \<Longrightarrow>
   historyIndex_h t' = historyIndex_h t + 1
   \<and> js_index (history_h t) (historyIndex_h t + 1) = Some (nodes_ref t', edges_ref t')"
  by (auto simp: redo_h_def split: option.splits)

text \<open>
  C5, as the spec states it, fails.  In \<open>ex_store_h\<close> the live \<open>nodes\<close> array (address
  1) holds the node object at address 0.  The entry that \<open>saveToHistory\<close> stores has
  its own \<open>nodes\<close> array (address 3), but that array holds the same address 0: the
  node object is shared.  Assigning to the live node object in place changes what the
  stored entry reads.
\<close>

theorem snapshot_shares_node_objects:
  "last (history_h (saveToHistory_h ex_store_h)) = (3, 4)
   \<and> arrays (heap_of (saveToHistory_h ex_store_h)) 3 = Some [0]
   \<and> arrays (heap_of (saveToHistory_h ex_store_h)) (nodes_ref (saveToHistory_h ex_store_h))
       = Some [0]
   \<and> read_snapshot (heap_of (saveToHistory_h ex_store_h)) (3, 4)
       = (Some [Some (NodeObj (ex_node ''n1'' Rectangle))], Some [])
   \<and> read_snapshot
         (object_write (heap_of (saveToHistory_h ex_store_h)) 0 (NodeObj (ex_node ''n1'' Circle)))
         (3, 4)
       = (Some [Some (NodeObj (ex_node ''n1'' Circle))], Some [])
   \<and> read_snapshot
         (object_write (heap_of (saveToHistory_h ex_store_h)) 0 (NodeObj (ex_node ''n1'' Circle)))
         (3, 4)
       \<noteq> read_snapshot (heap_of (saveToHistory_h ex_store_h)) (3, 4)"
  by (simp add: saveToHistory_h_def copy_array_def Let_def ex_store_h_def slice0_def
      read_snapshot_def read_array_def object_write_def ex_node_def)

text \<open>
  After two commits and one \<open>undo\<close> the live \<open>nodes\<close> array is the array of the
  first history entry itself: emptying the live array in place empties what that
  entry reads.
\<close>

lemma undo_makes_entry_arrays_live:
  "map_sum id nodes_ref (run_h [SaveToHistoryH, SaveToHistoryH, UndoH] ex_store_h) = Inr 3
   \<and> map_sum id (\<lambda>t. hd (history_h t))
        (run_h [SaveToHistoryH, SaveToHistoryH, UndoH] ex_store_h) = Inr (3, 4)
   \<and> map_sum id (\<lambda>t. read_snapshot (heap_of t) (hd (history_h t)))
        (run_h [SaveToHistoryH, SaveToHistoryH, UndoH] ex_store_h)
       = Inr (Some [Some (NodeObj (ex_node ''n1'' Rectangle))], Some [])
   \<and> map_sum id
        (\<lambda>t. read_snapshot (array_write (heap_of t) (nodes_ref t) []) (hd (history_h t)))
        (run_h [SaveToHistoryH, SaveToHistoryH, UndoH] ex_store_h)
       = Inr (Some [], Some [])"
  by (simp add: saveToHistory_h_def copy_array_def Let_def ex_store_h_def slice0_def
      undo_h_def js_index_def read_snapshot_def read_array_def array_write_def)

text \<open>
  C5, amended.  The entry that \<open>saveToHistory\<close> stores is a shallow copy.  Its two
  arrays are new: neither is the \<open>nodes\<close> array or the \<open>edges\<close> array that is live
  at the call, and the call leaves those two live.  The new arrays hold the elements
  of the live arrays, in the same order, and no object is copied: the node and edge
  objects are shared.  Whatever history operations and in-place mutations follow, as
  long as the only arrays mutated in place are the two that were live at the call,
  the arrays of the stored entry keep their elements.  The log does not stay apart
  from the live document, though: an \<open>undo\<close> or \<open>redo\<close> that moves the cursor makes
  the arrays of the entry at the new cursor the live arrays.
\<close>

theorem snapshot_is_shallow_copy:
  assumes "allocated s"
  shows "fst (last (history_h (saveToHistory_h s))) \<noteq> nodes_ref s
       \<and> fst (last (history_h (saveToHistory_h s))) \<noteq> edges_ref s
       \<and> snd (last (history_h (saveToHistory_h s))) \<noteq> nodes_ref s
       \<and> snd (last (history_h (saveToHistory_h s))) \<noteq> edges_ref s
       \<and> nodes_ref (saveToHistory_h s) = nodes_ref s
       \<and> edges_ref (saveToHistory_h s) = edges_ref s
       \<and> arrays (heap_of (saveToHistory_h s)) (fst (last (history_h (saveToHistory_h s))))
           = arrays (heap_of s) (nodes_ref s)
       \<and> arrays (heap_of (saveToHistory_h s)) (snd (last (history_h (saveToHistory_h s))))
           = arrays (heap_of s) (edges_ref s)
       \<and> objects (heap_of (saveToHistory_h s)) = objects (heap_of s)
       \<and> (\<forall>ops s'. list_all (array_write_within [nodes_ref s, edges_ref s]) ops
                    \<and> run_h ops (saveToHistory_h s) = Inr s' \<longrightarrow>
             arrays (heap_of s') (fst (last (history_h (saveToHistory_h s))))
               = arrays (heap_of s) (nodes_ref s)
             \<and> arrays (heap_of s') (snd (last (history_h (saveToHistory_h s))))
               = arrays (heap_of s) (edges_ref s))
       \<and> (\<forall>t t'. 0 < historyIndex_h t \<and> undo_h t = Inr t' \<longrightarrow>
             historyIndex_h t' = historyIndex_h t - 1
             \<and> js_index (history_h t) (historyIndex_h t - 1)
                 = Some (nodes_ref t', edges_ref t'))
       \<and> (\<forall>t t'. historyIndex_h t < int (length (history_h t)) - 1 \<and> redo_h t = Inr t' \<longrightarrow>
             historyIndex_h t' = historyIndex_h t + 1
             \<and> js_index (history_h t) (historyIndex_h t + 1)
                 = Some (nodes_ref t', edges_ref t'))"
proof -
  let ?n = "next_addr (heap_of s)"
  let ?s1 = "saveToHistory_h s"
  have lt: "nodes_ref s < ?n" "edges_ref s < ?n"
    using assms by (simp_all add: allocated_def)
  have l: "last (history_h ?s1) = (?n, Suc ?n)"
    using saveToHistory_h_last by blast
  note r = saveToHistory_h_refs [of s]
  have a1: "arrays (heap_of ?s1) ?n = arrays (heap_of s) (nodes_ref s)"
    by (simp add: saveToHistory_h_arrays)
  have a2: "arrays (heap_of ?s1) (Suc ?n) = arrays (heap_of s) (edges_ref s)"
    using lt by (simp add: saveToHistory_h_arrays)
  have nx: "next_addr (heap_of ?s1) = Suc (Suc ?n)"
    by (simp add: saveToHistory_h_def copy_array_def Let_def)
  have out: "?n \<notin> set [nodes_ref s, edges_ref s]" "Suc ?n \<notin> set [nodes_ref s, edges_ref s]"
    using lt by auto
  have k: "arrays (heap_of s') ?n = arrays (heap_of s) (nodes_ref s)
           \<and> arrays (heap_of s') (Suc ?n) = arrays (heap_of s) (edges_ref s)"
    if "list_all (array_write_within [nodes_ref s, edges_ref s]) ops"
      and "run_h ops ?s1 = Inr s'" for ops s'
    using run_h_keeps [OF that(1) out(1) _ that(2)] run_h_keeps [OF that(1) out(2) _ that(2)]
    by (simp add: nx a1 a2)
  have u: "\<forall>t t'. 0 < historyIndex_h t \<and> undo_h t = Inr t' \<longrightarrow>
             historyIndex_h t' = historyIndex_h t - 1
             \<and> js_index (history_h t) (historyIndex_h t - 1)
                 = Some (nodes_ref t', edges_ref t')"
    using undo_h_alias by blast
  have v: "\<forall>t t'. historyIndex_h t < int (length (history_h t)) - 1 \<and> redo_h t = Inr t' \<longrightarrow>
             historyIndex_h t' = historyIndex_h t + 1
             \<and> js_index (history_h t) (historyIndex_h t + 1)
                 = Some (nodes_ref t', edges_ref t')"
    using redo_h_alias by blast
  have front: "fst (last (history_h ?s1)) \<noteq> nodes_ref s
       \<and> fst (last (history_h ?s1)) \<noteq> edges_ref s
       \<and> snd (last (history_h ?s1)) \<noteq> nodes_ref s
       \<and> snd (last (history_h ?s1)) \<noteq> edges_ref s
       \<and> nodes_ref ?s1 = nodes_ref s \<and> edges_ref ?s1 = edges_ref s
       \<and> arrays (heap_of ?s1) (fst (last (history_h ?s1))) = arrays (heap_of s) (nodes_ref s)
       \<and> arrays (heap_of ?s1) (snd (last (history_h ?s1))) = arrays (heap_of s) (edges_ref s)
       \<and> objects (heap_of ?s1) = objects (heap_of s)"
    using lt a1 a2 by (simp add: l r saveToHistory_h_objects)
  have k': "\<forall>ops s'. list_all (array_write_within [nodes_ref s, edges_ref s]) ops
                    \<and> run_h ops ?s1 = Inr s' \<longrightarrow>
             arrays (heap_of s') (fst (last (history_h ?s1))) = arrays (heap_of s) (nodes_ref s)
             \<and> arrays (heap_of s') (snd (last (history_h ?s1))) = arrays (heap_of s) (edges_ref s)"
    unfolding l fst_conv snd_conv using k by blast
  from front k' u v show ?thesis by blast
qed

theorem snapshot_is_shallow_copy_witness:
  "allocated ex_store_h
   \<and> fst (last (history_h (saveToHistory_h ex_store_h))) \<noteq> nodes_ref ex_store_h
   \<and> list_all (array_write_within [nodes_ref ex_store_h, edges_ref ex_store_h])
        [ArrayWrite 1 [], SaveToHistoryH, ObjectWrite 0 (NodeObj (ex_node ''n1'' Circle)),
         UndoH, ArrayWrite 2 [0]]
   \<and> map_sum id
        (\<lambda>s'. arrays (heap_of s') (fst (last (history_h (saveToHistory_h ex_store_h)))))
        (run_h [ArrayWrite 1 [], SaveToHistoryH, ObjectWrite 0 (NodeObj (ex_node ''n1'' Circle)),
                UndoH, ArrayWrite 2 [0]]
           (saveToHistory_h ex_store_h))
       = Inr (Some [0])
   \<and> 0 < historyIndex_h ex_store_h2
   \<and> undo_h ex_store_h2 = Inr ex_store_h2_undone
   \<and> js_index (history_h ex_store_h2) (historyIndex_h ex_store_h2 - 1)
       = Some (nodes_ref ex_store_h2_undone, edges_ref ex_store_h2_undone)
   \<and> historyIndex_h ex_store_h2_undone < int (length (history_h ex_store_h2_undone)) - 1
   \<and> redo_h ex_store_h2_undone
       = Inr (ex_store_h2_undone\<lparr>nodes_ref := 5, edges_ref := 6, historyIndex_h := 1\<rparr>)
   \<and> js_index (history_h ex_store_h2_undone) (historyIndex_h ex_store_h2_undone + 1)
       = Some (5, 6)"
proof -
  let ?ops = "[ArrayWrite 1 [], SaveToHistoryH, ObjectWrite 0 (NodeObj (ex_node ''n1'' Circle)),
               UndoH, ArrayWrite 2 [0]]"
  have h: "allocated ex_store_h"
    by (simp add: allocated_def ex_store_h_def)
  have w: "list_all (array_write_within [nodes_ref ex_store_h, edges_ref ex_store_h]) ?ops"
    by (simp add: ex_store_h_def)
  have a: "arrays (heap_of ex_store_h) (nodes_ref ex_store_h) = Some [0]"
    by (simp add: ex_store_h_def)
  obtain s' where r: "run_h ?ops (saveToHistory_h ex_store_h) = Inr s'"
    by (simp add: saveToHistory_h_def copy_array_def Let_def ex_store_h_def slice0_def
        undo_h_def js_index_def)
  note inst = snapshot_is_shallow_copy [OF h]
  from inst w r a
  have k: "arrays (heap_of s') (fst (last (history_h (saveToHistory_h ex_store_h)))) = Some [0]"
    by metis
  from inst have f: "fst (last (history_h (saveToHistory_h ex_store_h))) \<noteq> nodes_ref ex_store_h"
    by blast
  have hist2: "history_h ex_store_h2 = [(3, 4), (5, 6)]" "historyIndex_h ex_store_h2 = 1"
    by (simp_all add: ex_store_h2_def saveToHistory_h_def copy_array_def Let_def ex_store_h_def
        slice0_def)
  have u0: "0 < historyIndex_h ex_store_h2"
    by (simp add: hist2)
  have u1: "undo_h ex_store_h2 = Inr ex_store_h2_undone"
    by (simp add: undo_h_def hist2 js_index_def ex_store_h2_undone_def)
  from inst u0 u1
  have u2: "js_index (history_h ex_store_h2) (historyIndex_h ex_store_h2 - 1)
              = Some (nodes_ref ex_store_h2_undone, edges_ref ex_store_h2_undone)"
    by blast
  have r0: "historyIndex_h ex_store_h2_undone < int (length (history_h ex_store_h2_undone)) - 1"
    by (simp add: ex_store_h2_undone_def hist2)
  have r1: "redo_h ex_store_h2_undone
              = Inr (ex_store_h2_undone\<lparr>nodes_ref := 5, edges_ref := 6, historyIndex_h := 1\<rparr>)"
    by (simp add: redo_h_def js_index_def ex_store_h2_undone_def hist2)
  from inst r0 r1
  have "js_index (history_h ex_store_h2_undone) (historyIndex_h ex_store_h2_undone + 1)
          = Some (nodes_ref (ex_store_h2_undone\<lparr>nodes_ref := 5, edges_ref := 6,
                                                   historyIndex_h := 1\<rparr>),
                  edges_ref (ex_store_h2_undone\<lparr>nodes_ref := 5, edges_ref := 6,
                                                   historyIndex_h := 1\<rparr>))"
    by blast
  then have r2: "js_index (history_h ex_store_h2_undone) (historyIndex_h ex_store_h2_undone + 1)
          = Some (5, 6)"
    by simp
  from h w r k f u0 u1 u2 r0 r1 r2 show ?thesis by simp
qed

end
